theory Spec2Isabelle
  imports Complex_Main
begin

section \<open>Python values\<close>

text \<open>
  The client of \<^verbatim>\<open>examples/clients/python_client.py\<close> passes request payloads and
  decoded response bodies around as untyped Python objects (\<^verbatim>\<open>Any\<close>). The values that
  JSON can carry are modelled by \<open>pyval\<close>; floating-point numbers are left out, no
  operation of the client inspects them. Strings are byte lists (UTF-8).
\<close>

datatype pyval =
    PNone
  | PBool bool
  | PInt int
  | PStr string
  | PList "pyval list"
  | PDict "(string \<times> pyval) list"

text \<open>Python's truth value of an object, as tested by \<^verbatim>\<open>if x:\<close> and \<^verbatim>\<open>x and y\<close>.\<close>

fun truthy :: "pyval \<Rightarrow> bool" where
  "truthy PNone = False"
| "truthy (PBool b) = b"
| "truthy (PInt i) = (i \<noteq> 0)"
| "truthy (PStr s) = (s \<noteq> [])"
| "truthy (PList xs) = (xs \<noteq> [])"
| "truthy (PDict kvs) = (kvs \<noteq> [])"

text \<open>
  A \<^verbatim>\<open>Dict[str, str]\<close> keeps its keys in insertion order; assigning to a key that is
  present replaces the value in place.
\<close>

type_synonym dict = "(string \<times> string) list"

fun dict_set :: "string \<Rightarrow> string \<Rightarrow> dict \<Rightarrow> dict" where
  "dict_set k v [] = [(k, v)]"
| "dict_set k v (p # ps) = (if fst p = k then (k, v) # ps else p # dict_set k v ps)"

text \<open>\<^verbatim>\<open>d.update(other)\<close>: every item of \<open>other\<close> is assigned, in order.\<close>

fun dict_update :: "dict \<Rightarrow> dict \<Rightarrow> dict" where
  "dict_update d [] = d"
| "dict_update d (p # ps) = dict_update (dict_set (fst p) (snd p) d) ps"

definition dict_get :: "dict \<Rightarrow> string \<Rightarrow> string option" where
  "dict_get d k = map_of d k"

text \<open>\<^verbatim>\<open>s.rstrip(chars)\<close>: drop every trailing character that occurs in \<open>chars\<close>.\<close>

definition rstrip :: "string \<Rightarrow> string \<Rightarrow> string" where
  "rstrip s chars = rev (dropWhile (\<lambda>c. c \<in> set chars) (rev s))"

text \<open>\<^verbatim>\<open>str(n)\<close> for an integer, as the f-string of the error message renders it.\<close>

fun str_nat :: "nat \<Rightarrow> string" where
  "str_nat n =
     (if n < 10 then [char_of (48 + n)]
      else str_nat (n div 10) @ [char_of (48 + n mod 10)])"

definition str_int :: "int \<Rightarrow> string" where
  "str_int i = (if i < 0 then CHR ''-'' # str_nat (nat (- i)) else str_nat (nat i))"

section \<open>Requests, responses and the transport\<close>

text \<open>
  The keyword arguments of \<^verbatim>\<open>self.session.request(...)\<close> in \<^verbatim>\<open>_make_request\<close>.
  \<open>req_json = None\<close> is Python's \<^verbatim>\<open>json=None\<close>: no JSON body is attached.
\<close>

record http_request =
  req_method :: string
  req_url :: string
  req_json :: "pyval option"
  req_headers :: dict
  req_params :: "dict option"
  req_timeout :: int

text \<open>
  What \<^verbatim>\<open>_make_request\<close> reads from the \<^verbatim>\<open>requests.Response\<close> object:
  \<^verbatim>\<open>status_code\<close>, \<^verbatim>\<open>reason\<close>, \<^verbatim>\<open>text\<close>, the result of \<^verbatim>\<open>json()\<close>
  (\<open>None\<close> when it raises \<^verbatim>\<open>JSONDecodeError\<close>), \<^verbatim>\<open>headers\<close> and \<^verbatim>\<open>elapsed\<close>
  (a \<^verbatim>\<open>timedelta\<close>, held here in microseconds).
\<close>

record http_response =
  resp_status_code :: int
  resp_reason :: string
  resp_text :: string
  resp_json :: "pyval option"
  resp_headers :: dict
  resp_elapsed_us :: int

text \<open>
  \<^verbatim>\<open>Response.ok\<close> of the requests library: \<^verbatim>\<open>raise_for_status()\<close> raises for
  \<^verbatim>\<open>400 <= status_code < 600\<close> and \<^verbatim>\<open>ok\<close> is true when it does not raise.
\<close>

definition ok :: "http_response \<Rightarrow> bool" where
  "ok response = (\<not> (400 \<le> resp_status_code response \<and> resp_status_code response < 600))"

text \<open>
  The call \<^verbatim>\<open>self.session.request(...)\<close> either raises a
  \<^verbatim>\<open>requests.exceptions.RequestException\<close> (with its \<^verbatim>\<open>str(e)\<close>) or returns a response.
  It is an effect on the outside world, of state \<open>'w\<close>.
\<close>

datatype transport_result =
    RequestException string
  | Response http_response

type_synonym 'w transport = "'w \<Rightarrow> http_request \<Rightarrow> transport_result \<times> 'w"

section \<open>The client\<close>

record ApiResponse =
  status_code :: int
  data :: pyval
  headers :: dict
  elapsed_ms :: rat

text \<open>
  \<^verbatim>\<open>HushApiError(message, status_code=None, response_data=None)\<close>.
\<close>

datatype HushApiError =
  HushApiError (message: string) (error_status_code: "int option") (response_data: pyval)

text \<open>
  The retry strategy handed to the HTTP adapter in \<^verbatim>\<open>__init__\<close>:
  \<^verbatim>\<open>Retry(total=3, backoff_factor=1, status_forcelist=[429, 500, 502, 503, 504])\<close>.
  The other fields are the defaults of \<^verbatim>\<open>urllib3.util.retry.Retry.__init__\<close>.
\<close>

record Retry =
  total :: int
  backoff_factor :: int
  status_forcelist :: "int list"
  allowed_methods :: "string list"
  raise_on_status :: bool
  respect_retry_after_header :: bool

definition DEFAULT_ALLOWED_METHODS :: "string list" where
  "DEFAULT_ALLOWED_METHODS = [''HEAD'', ''GET'', ''PUT'', ''DELETE'', ''OPTIONS'', ''TRACE'']"

definition Retry_init :: "int \<Rightarrow> int \<Rightarrow> int list \<Rightarrow> Retry" where
  "Retry_init t b s =
     \<lparr>total = t, backoff_factor = b, status_forcelist = s,
      allowed_methods = DEFAULT_ALLOWED_METHODS,
      raise_on_status = True, respect_retry_after_header = True\<rparr>"

text \<open>The session: one adapter, mounted for \<^verbatim>\<open>http://\<close> and \<^verbatim>\<open>https://\<close>.\<close>

record session =
  max_retries :: Retry

record HushApiClient =
  base_url :: string
  timeout :: int
  token :: "string option"
  session :: session

text \<open>\<^verbatim>\<open>HushApiClient.__init__(base_url, timeout)\<close>.\<close>

definition init :: "string \<Rightarrow> int \<Rightarrow> HushApiClient" where
  "init b t =
     (let retry_strategy = Retry_init 3 1 [429, 500, 502, 503, 504]
      in \<lparr>base_url = rstrip b ''/'', timeout = t, token = None,
          session = \<lparr>max_retries = retry_strategy\<rparr>\<rparr>)"

definition set_auth_token :: "HushApiClient \<Rightarrow> string \<Rightarrow> HushApiClient" where
  "set_auth_token self t = self\<lparr>token := Some t\<rparr>"

text \<open>
  \<^verbatim>\<open>_get_headers(additional_headers)\<close>. \<^verbatim>\<open>if self.token:\<close> is false for \<^verbatim>\<open>None\<close> and
  for the empty string; \<^verbatim>\<open>if additional_headers:\<close> is false for \<^verbatim>\<open>None\<close> and for the
  empty dict.
\<close>

definition get_headers :: "HushApiClient \<Rightarrow> dict option \<Rightarrow> dict" where
  "get_headers self additional_headers =
     (let h0 = [(''Content-Type'', ''application/json''),
                (''User-Agent'', ''HushApiClient/1.0.0 (Python)'')];
          h1 = (case token self of
                  None \<Rightarrow> h0
                | Some t \<Rightarrow> if t \<noteq> [] then dict_set ''Authorization'' (''Bearer '' @ t) h0 else h0);
          h2 = (case additional_headers of
                  None \<Rightarrow> h1
                | Some a \<Rightarrow> if a \<noteq> [] then dict_update h1 a else h1)
      in h2)"

text \<open>
  The request that \<^verbatim>\<open>_make_request\<close> hands to \<^verbatim>\<open>session.request\<close>: the URL is
  \<^verbatim>\<open>f"{self.base_url}{endpoint}"\<close>, and the JSON body is
  \<^verbatim>\<open>data if data and method in ['POST', 'PUT', 'PATCH'] else None\<close>.
\<close>

definition build_request ::
  "HushApiClient \<Rightarrow> string \<Rightarrow> string \<Rightarrow> pyval \<Rightarrow> dict option \<Rightarrow> dict option \<Rightarrow> http_request" where
  "build_request self method endpoint d hdrs params =
     \<lparr>req_method = method,
      req_url = base_url self @ endpoint,
      req_json = (if truthy d \<and> method \<in> set [''POST'', ''PUT'', ''PATCH''] then Some d else None),
      req_headers = get_headers self hdrs,
      req_params = params,
      req_timeout = timeout self\<rparr>"

text \<open>
  The prefix of the transport error's message, the UTF-8 bytes of the source's
  four-character Chinese text for "network error", followed by a colon and a space.
\<close>

definition network_error_prefix :: string where
  "network_error_prefix =
     [CHR 0xE7, CHR 0xBD, CHR 0x91, CHR 0xE7, CHR 0xBB, CHR 0x9C,
      CHR 0xE9, CHR 0x94, CHR 0x99, CHR 0xE8, CHR 0xAF, CHR 0xAF, CHR '':'', CHR '' '']"

text \<open>
  The decoding of the body in \<^verbatim>\<open>_make_request\<close>: \<^verbatim>\<open>response.json()\<close>, and
  \<^verbatim>\<open>response.text\<close> when that raises \<^verbatim>\<open>json.JSONDecodeError\<close>.
\<close>

definition parse_response_data :: "http_response \<Rightarrow> pyval" where
  "parse_response_data response =
     (case resp_json response of Some j \<Rightarrow> j | None \<Rightarrow> PStr (resp_text response))"

text \<open>
  \<^verbatim>\<open>_make_request(method, endpoint, data, headers, params)\<close>. Raising
  \<^verbatim>\<open>HushApiError\<close> is the result \<open>Inl\<close>; the \<^verbatim>\<open>HushApiError\<close> raised for a failed
  status is not a \<^verbatim>\<open>RequestException\<close>, so the outer handler lets it through. Logging
  and the timing of \<^verbatim>\<open>_performance_monitor\<close> are left out.
\<close>

definition make_request ::
  "'w transport \<Rightarrow> HushApiClient \<Rightarrow> string \<Rightarrow> string \<Rightarrow> pyval \<Rightarrow> dict option \<Rightarrow> dict option
     \<Rightarrow> 'w \<Rightarrow> (HushApiError + ApiResponse) \<times> 'w" where
  "make_request send self method endpoint d hdrs params w =
     (case send w (build_request self method endpoint d hdrs params) of
        (RequestException e, w') \<Rightarrow>
          (Inl (HushApiError (network_error_prefix @ e) None PNone), w')
      | (Response response, w') \<Rightarrow>
          (let response_data = parse_response_data response;
               api_response = \<lparr>status_code = resp_status_code response,
                               data = response_data,
                               headers = resp_headers response,
                               elapsed_ms = of_int (resp_elapsed_us response) / 1000\<rparr>
           in if ok response then (Inr api_response, w')
              else (Inl (HushApiError
                           (''HTTP '' @ str_int (resp_status_code response) @ '': '' @ resp_reason response)
                           (Some (resp_status_code response)) response_data), w')))"

text \<open>The typed methods return \<^verbatim>\<open>response.data\<close>; an exception passes through.\<close>

definition return_data :: "(HushApiError + ApiResponse) \<times> 'w \<Rightarrow> (HushApiError + pyval) \<times> 'w" where
  "return_data r = (case r of (Inl e, w) \<Rightarrow> (Inl e, w) | (Inr response, w) \<Rightarrow> (Inr (data response), w))"

definition health_check :: "'w transport \<Rightarrow> HushApiClient \<Rightarrow> 'w \<Rightarrow> (HushApiError + pyval) \<times> 'w" where
  "health_check send self w = return_data (make_request send self ''GET'' ''/health'' PNone None None w)"

definition get_user_info :: "'w transport \<Rightarrow> HushApiClient \<Rightarrow> 'w \<Rightarrow> (HushApiError + pyval) \<times> 'w" where
  "get_user_info send self w = return_data (make_request send self ''GET'' ''/user'' PNone None None w)"

definition get_users :: "'w transport \<Rightarrow> HushApiClient \<Rightarrow> 'w \<Rightarrow> (HushApiError + pyval) \<times> 'w" where
  "get_users send self w = return_data (make_request send self ''GET'' ''/api/users'' PNone None None w)"

definition create_user ::
  "'w transport \<Rightarrow> HushApiClient \<Rightarrow> pyval \<Rightarrow> 'w \<Rightarrow> (HushApiError + pyval) \<times> 'w" where
  "create_user send self user_data w =
     return_data (make_request send self ''POST'' ''/api/users'' user_data None None w)"

definition get_admin_dashboard ::
  "'w transport \<Rightarrow> HushApiClient \<Rightarrow> 'w \<Rightarrow> (HushApiError + pyval) \<times> 'w" where
  "get_admin_dashboard send self w =
     return_data (make_request send self ''GET'' ''/admin/dashboard'' PNone None None w)"

text \<open>\<^verbatim>\<open>cors_preflight_check(endpoint, method)\<close> returns the \<^verbatim>\<open>ApiResponse\<close> itself.\<close>

definition cors_preflight_check ::
  "'w transport \<Rightarrow> HushApiClient \<Rightarrow> string \<Rightarrow> string \<Rightarrow> 'w \<Rightarrow> (HushApiError + ApiResponse) \<times> 'w" where
  "cors_preflight_check send self endpoint method w =
     (let hdrs = [(''Access-Control-Request-Method'', method),
                  (''Access-Control-Request-Headers'', ''Content-Type, Authorization'')]
      in make_request send self ''OPTIONS'' endpoint PNone (Some hdrs) None w)"

text \<open>
  A caller's view of the facade: one method call on a client object. Python methods
  return objects of any type, so the value handed back is tagged: the typed methods
  return the decoded body, \<^verbatim>\<open>cors_preflight_check\<close> the \<^verbatim>\<open>ApiResponse\<close>, and
  \<^verbatim>\<open>set_auth_token\<close> nothing. Only \<^verbatim>\<open>set_auth_token\<close> assigns to a field of
  \<^verbatim>\<open>self\<close>.
\<close>

datatype call =
    Health_check
  | Get_user_info
  | Get_users
  | Create_user pyval
  | Get_admin_dashboard
  | Cors_preflight_check string string
  | Set_auth_token string

datatype returned = Data pyval | Envelope ApiResponse | Nothing

fun is_set_auth_token :: "call \<Rightarrow> bool" where
  "is_set_auth_token (Set_auth_token t) = True"
| "is_set_auth_token c = False"

definition returning ::
  "('a \<Rightarrow> returned) \<Rightarrow> HushApiClient \<Rightarrow> (HushApiError + 'a) \<times> 'w
     \<Rightarrow> (HushApiError + returned) \<times> HushApiClient \<times> 'w" where
  "returning tag self r = (map_sum id tag (fst r), self, snd r)"

fun perform ::
  "'w transport \<Rightarrow> call \<Rightarrow> HushApiClient \<times> 'w \<Rightarrow> (HushApiError + returned) \<times> HushApiClient \<times> 'w" where
  "perform send Health_check (self, w) = returning Data self (health_check send self w)"
| "perform send Get_user_info (self, w) = returning Data self (get_user_info send self w)"
| "perform send Get_users (self, w) = returning Data self (get_users send self w)"
| "perform send (Create_user u) (self, w) = returning Data self (create_user send self u w)"
| "perform send Get_admin_dashboard (self, w) = returning Data self (get_admin_dashboard send self w)"
| "perform send (Cors_preflight_check e m) (self, w) =
     returning Envelope self (cors_preflight_check send self e m w)"
| "perform send (Set_auth_token t) (self, w) = (Inr Nothing, set_auth_token self t, w)"

text \<open>
  A caller that makes the calls one after another on the same client and handles any
  \<^verbatim>\<open>HushApiError\<close> itself, as \<^verbatim>\<open>interactive_mode\<close> does.
\<close>

fun run :: "'w transport \<Rightarrow> call list \<Rightarrow> HushApiClient \<times> 'w \<Rightarrow> HushApiClient \<times> 'w" where
  "run send [] s = s"
| "run send (c # cs) s = run send cs (snd (perform send c s))"

text \<open>
  A mock transport: it answers each request by \<open>respond\<close> and keeps the list of the
  requests it has seen.
\<close>

definition recording :: "(http_request \<Rightarrow> transport_result) \<Rightarrow> http_request list transport" where
  "recording respond seen req = (respond req, seen @ [req])"

text \<open>A responder that answers every request with the same response.\<close>

definition reply :: "http_response \<Rightarrow> http_request \<Rightarrow> transport_result" where
  "reply response req = Response response"

text \<open>
  A response with a given status, reason, text and JSON decoding; a responder for a
  server that cannot be reached; and the \<^verbatim>\<open>Authorization\<close> value that the stored token
  calls for.
\<close>

definition response_of :: "int \<Rightarrow> string \<Rightarrow> string \<Rightarrow> pyval option \<Rightarrow> http_response" where
  "response_of sc reason txt j =
     \<lparr>resp_status_code = sc, resp_reason = reason, resp_text = txt, resp_json = j,
      resp_headers = [], resp_elapsed_us = 0\<rparr>"

definition unreachable :: "string \<Rightarrow> http_request \<Rightarrow> transport_result" where
  "unreachable e req = RequestException e"

definition bearer :: "HushApiClient \<Rightarrow> string option" where
  "bearer self =
     (case token self of None \<Rightarrow> None | Some t \<Rightarrow> if t \<noteq> [] then Some (''Bearer '' @ t) else None)"

section \<open>The session of the client\<close>


definition lower_char :: "char \<Rightarrow> char" where
  "lower_char c =
     (let n = (of_char c :: nat) in if 65 \<le> n \<and> n \<le> 90 then char_of (n + 32) else c)"


definition lower :: "string \<Rightarrow> string" where
  "lower s = map lower_char s"

text \<open>\<^verbatim>\<open>repr(s)\<close> of a string without quotes or escapes in it.\<close>

definition quote :: "string \<Rightarrow> string" where
  "quote s = CHR 0x27 # s @ [CHR 0x27]"

text \<open>
  \<^verbatim>\<open>headers.get(name)\<close> on the headers of a response: names compare without case, and
  the values of several lines of one header are joined by a comma and a space.
\<close>

definition header_get :: "dict \<Rightarrow> string \<Rightarrow> string option" where
  "header_get h name =
     (case filter (\<lambda>kv. lower (fst kv) = lower name) h of
        [] \<Rightarrow> None
      | kv # kvs \<Rightarrow> Some (foldl (\<lambda>v kv'. v @ '', '' @ snd kv') (snd kv) kvs))"

text \<open>
  A transmission that ends without an HTTP response. \<^verbatim>\<open>urllib3\<close> tells three kinds
  apart: the connection could not be made (\<^verbatim>\<open>ConnectTimeoutError\<close>,
  \<^verbatim>\<open>NewConnectionError\<close>: DNS failure, connection refused, connect timeout), the
  request was sent and no response read (\<^verbatim>\<open>ReadTimeoutError\<close>, \<^verbatim>\<open>ProtocolError\<close>),
  and anything else (\<^verbatim>\<open>SSLError\<close>). The failure carries its \<^verbatim>\<open>str\<close> and its
  \<^verbatim>\<open>repr\<close>.
\<close>

datatype failure_kind = Connection_error | Read_error | Other_error

record failure =
  failure_kind :: failure_kind
  failure_str :: string
  failure_repr :: string

text \<open>
  The world outside the client, as far as a request depends on it:

    \<^item> \<open>refusal\<close>: the text of the \<^verbatim>\<open>RequestException\<close> with which \<^verbatim>\<open>Session.request\<close>
      rejects a request before anything is sent (an invalid URL, a scheme for which no
      adapter is mounted, a payload that cannot be encoded as JSON), if it does;
    \<^item> \<open>pool\<close> and \<open>path_url\<close>: \<^verbatim>\<open>str\<close> of the connection pool of the request's host,
      and the path and query of its URL, as they appear in the text of a
      \<^verbatim>\<open>MaxRetryError\<close>;
    \<^item> \<open>answer\<close>: what comes of the \<open>n\<close>-th transmission (counted from zero) made on the
      network, a failure or a response;
    \<^item> \<open>retry_after_seconds\<close>: the seconds that the value of a \<^verbatim>\<open>Retry-After\<close> header
      stands for (\<^verbatim>\<open>parse_retry_after\<close>: a decimal number between whitespace, or a date
      that \<^verbatim>\<open>email.utils.parsedate_tz\<close> reads, taken from the host's clock), if any;
    \<^item> \<open>redirected\<close>: the request that \<^verbatim>\<open>resolve_redirects\<close> prepares from a request and
      the redirect that answered it.
\<close>

record network =
  refusal :: "http_request \<Rightarrow> string option"
  pool :: "http_request \<Rightarrow> string"
  path_url :: "http_request \<Rightarrow> string"
  answer :: "nat \<Rightarrow> http_request \<Rightarrow> failure + http_response"
  retry_after_seconds :: "string \<Rightarrow> rat option"
  redirected :: "http_request \<Rightarrow> http_response \<Rightarrow> http_request"




















text \<open>
  \<^verbatim>\<open>Session.request\<close> follows redirects (\<^verbatim>\<open>allow_redirects\<close> is on): a response with
  a \<^verbatim>\<open>Location\<close> header that is not empty and a status of \<^verbatim>\<open>REDIRECT_STATI\<close> is
  answered by a new request, sent like the first, and the response whose history has
  reached \<^verbatim>\<open>max_redirects\<close> (30) raises \<^verbatim>\<open>TooManyRedirects\<close>.
\<close>

definition REDIRECT_STATI :: "int list" where
  "REDIRECT_STATI = [301, 302, 303, 307, 308]"


definition get_redirect_target :: "http_response \<Rightarrow> string option" where
  "get_redirect_target resp =
     (if header_get (resp_headers resp) ''location'' \<noteq> None
         \<and> resp_status_code resp \<in> set REDIRECT_STATI
      then header_get (resp_headers resp) ''location''
      else None)"






text \<open>
  Networks to try the client on. A \<^verbatim>\<open>Retry-After\<close> value of decimal digits stands for
  that many seconds. The server of \<open>localhost\<close> accepts every request of a client whose
  base URL is \<^verbatim>\<open>http://localhost:8080\<close>; \<open>steady\<close> answers every transmission with the
  same response, \<open>down\<close> fails every transmission in the same way, and \<open>refused\<close> is the
  failure of a connection that the host refuses.
\<close>

definition delay_seconds :: "string \<Rightarrow> rat option" where
  "delay_seconds v =
     (if v \<noteq> [] \<and> list_all (\<lambda>c. 48 \<le> (of_char c :: nat) \<and> (of_char c :: nat) \<le> 57) v
      then Some (of_nat (foldl (\<lambda>a c. 10 * a + (of_char c - 48)) 0 v))
      else None)"

definition localhost :: "(nat \<Rightarrow> http_request \<Rightarrow> failure + http_response) \<Rightarrow> network" where
  "localhost answers =
     \<lparr>refusal = (\<lambda>req. None),
      pool = (\<lambda>req. ''HTTPConnectionPool(host='' @ quote ''localhost'' @ '', port=8080)''),
      path_url = (\<lambda>req. drop (length ''http://localhost:8080'') (req_url req)),
      answer = answers,
      retry_after_seconds = delay_seconds,
      redirected = (\<lambda>req resp. case get_redirect_target resp of
                                  None \<Rightarrow> req
                                | Some url \<Rightarrow> req\<lparr>req_url := url\<rparr>)\<rparr>"




section \<open>What one request does\<close>

lemma make_request_Response:
  assumes "send w (build_request self method endpoint d hdrs params) = (Response response, w')"
  shows "make_request send self method endpoint d hdrs params w =
     (if 400 \<le> resp_status_code response \<and> resp_status_code response < 600
      then (Inl (HushApiError
                  (''HTTP '' @ str_int (resp_status_code response) @ '': '' @ resp_reason response)
                  (Some (resp_status_code response)) (parse_response_data response)), w')
      else (Inr \<lparr>status_code = resp_status_code response,
                 data = parse_response_data response,
                 headers = resp_headers response,
                 elapsed_ms = of_int (resp_elapsed_us response) / 1000\<rparr>, w'))"
  using assms by (simp add: make_request_def ok_def Let_def)


lemma make_request_recording:
  "snd (make_request (recording respond) self m e d h p seen) = seen @ [build_request self m e d h p]"
  by (simp add: make_request_def recording_def Let_def split: transport_result.splits)

lemma return_data_snd: "snd (return_data r) = snd r"
  by (simp add: return_data_def split: prod.splits sum.splits)


lemma return_data_Inr: "return_data (Inr r, w) = (Inr (data r), w)"
  by (simp add: return_data_def)

section \<open>Trailing slashes of the base URL\<close>

lemma rstrip_append_replicate:
  "rstrip (b @ replicate n c) [c] = rstrip b [c]"
  by (induction n) (simp_all add: rstrip_def replicate_app_Cons_same)

lemma takeWhile_eq_replicate:
  "takeWhile (\<lambda>x. x = c) xs = replicate (length (takeWhile (\<lambda>x. x = c) xs)) c"
  by (induction xs) auto

lemma rstrip_prefix: "\<exists>n. b = rstrip b [c] @ replicate n c"
proof -
  let ?P = "\<lambda>x. x \<in> set [c]"
  have "rev b = takeWhile ?P (rev b) @ dropWhile ?P (rev b)" by simp
  then have "b = rev (dropWhile ?P (rev b)) @ rev (takeWhile ?P (rev b))"
    by (metis rev_append rev_rev_ident)
  moreover have "takeWhile ?P (rev b) = replicate (length (takeWhile ?P (rev b))) c"
    using takeWhile_eq_replicate [of c "rev b"] by simp
  ultimately have "b = rstrip b [c] @ replicate (length (takeWhile ?P (rev b))) c"
    by (metis rev_replicate rstrip_def)
  then show ?thesis ..
qed

lemma rstrip_no_trailing: "\<not> (\<exists>s. rstrip b [c] = s @ [c])"
proof
  assume "\<exists>s. rstrip b [c] = s @ [c]"
  then obtain s where "rev (dropWhile (\<lambda>x. x \<in> set [c]) (rev b)) = s @ [c]"
    by (auto simp: rstrip_def)
  then have "dropWhile (\<lambda>x. x \<in> set [c]) (rev b) = c # rev s"
    by (metis rev_eq_Cons_iff rev_rev_ident)
  then show False
    using hd_dropWhile [of "\<lambda>x. x \<in> set [c]" "rev b"] by simp
qed

text \<open>
  Claim C9. \<^verbatim>\<open>__init__\<close> strips the trailing slashes of \<open>base_url\<close>: two clients whose
  base URLs differ only in the number of trailing \<open>/\<close> characters have the same stored
  base URL and send every request to the same URL. What is stripped is a run of slashes
  and nothing else, and the stored base URL does not end in a slash.
\<close>

theorem base_url_trailing_slashes:
  "base_url (init (b @ replicate n CHR ''/'') t) = base_url (init (b @ replicate m CHR ''/'') t)
   \<and> req_url (build_request (init (b @ replicate n CHR ''/'') t) method endpoint d h p)
     = req_url (build_request (init (b @ replicate m CHR ''/'') t) method endpoint d h p)
   \<and> (\<exists>k. b = base_url (init b t) @ replicate k CHR ''/'')
   \<and> \<not> (\<exists>s. base_url (init b t) = s @ ''/'')"
  using rstrip_prefix [of b "CHR ''/''"] rstrip_no_trailing [of b "CHR ''/''"]
  by (simp add: init_def build_request_def rstrip_append_replicate)

section \<open>The JSON body of a request\<close>

text \<open>
  Claim C10. A JSON body is attached exactly when the payload is truthy (not empty) and
  the method is \<^verbatim>\<open>POST\<close>, \<^verbatim>\<open>PUT\<close> or \<^verbatim>\<open>PATCH\<close>. \<^verbatim>\<open>create_user\<close> with an empty
  dict sends one request, without a JSON body, and a \<^verbatim>\<open>GET\<close> request never carries one.
\<close>

theorem json_body_attached:
  "req_json (build_request self method endpoint d h p) =
     (if truthy d \<and> (method = ''POST'' \<or> method = ''PUT'' \<or> method = ''PATCH'') then Some d else None)
   \<and> snd (create_user (recording respond) self (PDict []) seen)
       = seen @ [build_request self ''POST'' ''/api/users'' (PDict []) None None]
   \<and> req_json (build_request self ''POST'' ''/api/users'' (PDict []) None None) = None
   \<and> req_json (build_request self ''GET'' endpoint d h p) = None"
  by (simp add: build_request_def create_user_def return_data_snd make_request_recording)


section \<open>Responses and their status\<close>



section \<open>The client's configuration\<close>

lemma perform_client:
  "fst (snd (perform send c (self, w))) =
     (case c of Set_auth_token t \<Rightarrow> set_auth_token self t | _ \<Rightarrow> self)"
  by (cases c) (simp_all add: returning_def)

lemma run_frame:
  "base_url (fst (run send cs s)) = base_url (fst s) \<and> timeout (fst (run send cs s)) = timeout (fst s)
   \<and> session (fst (run send cs s)) = session (fst s)"
proof (induction cs arbitrary: s)
  case Nil
  then show ?case by simp
next
  case (Cons c cs)
  obtain self w where s: "s = (self, w)" by (cases s)
  have "base_url (fst (snd (perform send c (self, w)))) = base_url self
      \<and> timeout (fst (snd (perform send c (self, w)))) = timeout self
      \<and> session (fst (snd (perform send c (self, w)))) = session self"
    by (simp add: perform_client set_auth_token_def split: call.splits)
  with Cons.IH [of "snd (perform send c s)"] s show ?case by simp
qed

text \<open>
  Claim C7. \<^verbatim>\<open>set_auth_token\<close> stores the token and leaves the base URL, the timeout
  and the session as they are; no sequence of facade calls changes the base URL or the
  timeout; and a call other than \<^verbatim>\<open>set_auth_token\<close> leaves the whole client unchanged.
\<close>

theorem configuration_frame:
  "base_url (set_auth_token self t) = base_url self
   \<and> timeout (set_auth_token self t) = timeout self
   \<and> session (set_auth_token self t) = session self
   \<and> token (set_auth_token self t) = Some t
   \<and> base_url (fst (run send cs (self, w))) = base_url self
   \<and> timeout (fst (run send cs (self, w))) = timeout self
   \<and> (\<not> is_set_auth_token c \<longrightarrow> fst (snd (perform send c (self, w))) = self)"
  using run_frame [of send cs "(self, w)"]
  by (cases c) (simp_all add: set_auth_token_def returning_def)

theorem configuration_frame_witness:
  "base_url (fst (run (recording (reply (response_of 200 ''OK'' ''[]'' (Some (PList [])))))
       [Get_users, Set_auth_token ''abc'', Create_user (PDict [(''name'', PStr ''x'')])]
       (init ''http://localhost:8080/'' 30, []))) = ''http://localhost:8080''
   \<and> timeout (fst (run (recording (reply (response_of 200 ''OK'' ''[]'' (Some (PList [])))))
       [Get_users, Set_auth_token ''abc'', Create_user (PDict [(''name'', PStr ''x'')])]
       (init ''http://localhost:8080/'' 30, []))) = 30
   \<and> fst (snd (perform (recording (reply (response_of 200 ''OK'' ''[]'' (Some (PList [])))))
       Get_users (init ''http://localhost:8080/'' 30, []))) = init ''http://localhost:8080/'' 30"
  using configuration_frame [of "init ''http://localhost:8080/'' 30" "''abc''"
      "recording (reply (response_of 200 ''OK'' ''[]'' (Some (PList []))))"
      "[Get_users, Set_auth_token ''abc'', Create_user (PDict [(''name'', PStr ''x'')])]" "[]"
      Get_users]
  by (simp add: init_def rstrip_def)

section \<open>The bearer token\<close>

lemma get_headers_Authorization_None:
  "dict_get (get_headers self None) ''Authorization'' = bearer self"
  by (simp add: get_headers_def dict_get_def bearer_def Let_def split: option.splits)

lemma get_headers_Authorization_cors:
  "dict_get (get_headers self (Some [(''Access-Control-Request-Method'', m),
      (''Access-Control-Request-Headers'', ''Content-Type, Authorization'')])) ''Authorization''
   = bearer self"
  by (simp add: get_headers_def dict_get_def bearer_def Let_def split: option.splits)

lemma get_headers_cors_method:
  "dict_get (get_headers self (Some [(''Access-Control-Request-Method'', m),
      (''Access-Control-Request-Headers'', ''Content-Type, Authorization'')]))
     ''Access-Control-Request-Method'' = Some m"
  by (simp add: get_headers_def dict_get_def Let_def split: option.splits)

lemma make_request_recording_full:
  "\<exists>res. make_request (recording respond) self m e d h p seen =
           (res, seen @ [build_request self m e d h p])"
  by (simp add: make_request_def recording_def Let_def split: transport_result.splits)

lemma return_data_recording:
  "\<exists>res. return_data (make_request (recording respond) self m e d h p seen) =
           (res, seen @ [build_request self m e d h p])"
  using make_request_recording_full [of respond self m e d h p seen]
  by (auto simp: return_data_def split: sum.splits)

lemma perform_recording:
  assumes "\<not> is_set_auth_token c"
  shows "\<exists>res req. perform (recording respond) c (self, seen) = (res, self, seen @ [req])
           \<and> dict_get (req_headers req) ''Authorization'' = bearer self"
proof (cases c)
  case Health_check
  then show ?thesis
    using return_data_recording [of respond self "''GET''" "''/health''" PNone None None seen]
    by (auto simp: health_check_def returning_def build_request_def get_headers_Authorization_None)
next
  case Get_user_info
  then show ?thesis
    using return_data_recording [of respond self "''GET''" "''/user''" PNone None None seen]
    by (auto simp: get_user_info_def returning_def build_request_def get_headers_Authorization_None)
next
  case Get_users
  then show ?thesis
    using return_data_recording [of respond self "''GET''" "''/api/users''" PNone None None seen]
    by (auto simp: get_users_def returning_def build_request_def get_headers_Authorization_None)
next
  case (Create_user u)
  then show ?thesis
    using return_data_recording [of respond self "''POST''" "''/api/users''" u None None seen]
    by (auto simp: create_user_def returning_def build_request_def get_headers_Authorization_None)
next
  case Get_admin_dashboard
  then show ?thesis
    using return_data_recording [of respond self "''GET''" "''/admin/dashboard''" PNone None None seen]
    by (auto simp: get_admin_dashboard_def returning_def build_request_def
        get_headers_Authorization_None)
next
  case (Cors_preflight_check e m)
  then show ?thesis
    using make_request_recording_full [of respond self "''OPTIONS''" e PNone
        "Some [(''Access-Control-Request-Method'', m),
               (''Access-Control-Request-Headers'', ''Content-Type, Authorization'')]" None seen]
    by (auto simp: cors_preflight_check_def returning_def build_request_def
        get_headers_Authorization_cors Let_def)
next
  case (Set_auth_token t)
  with assms show ?thesis by simp
qed

lemma run_recording:
  assumes "\<forall>c\<in>set cs. \<not> is_set_auth_token c"
  shows "\<exists>reqs. run (recording respond) cs (self, seen) = (self, seen @ reqs)
           \<and> length reqs = length cs
           \<and> (\<forall>r\<in>set reqs. dict_get (req_headers r) ''Authorization'' = bearer self)"
  using assms
proof (induction cs arbitrary: seen)
  case Nil
  then show ?case by simp
next
  case (Cons c cs)
  then have c: "\<not> is_set_auth_token c" and cs: "\<forall>c\<in>set cs. \<not> is_set_auth_token c"
    by simp_all
  obtain res req where p: "perform (recording respond) c (self, seen) = (res, self, seen @ [req])"
    and a: "dict_get (req_headers req) ''Authorization'' = bearer self"
    using perform_recording [OF c, of respond self seen] by blast
  obtain reqs where r: "run (recording respond) cs (self, seen @ [req]) = (self, (seen @ [req]) @ reqs)"
    and l: "length reqs = length cs"
    and h: "\<forall>r\<in>set reqs. dict_get (req_headers r) ''Authorization'' = bearer self"
    using Cons.IH [OF cs, of "seen @ [req]"] by blast
  have "run (recording respond) (c # cs) (self, seen) = (self, seen @ (req # reqs))"
    using p r by simp
  moreover have "length (req # reqs) = length (c # cs)" using l by simp
  moreover have "\<forall>r\<in>set (req # reqs). dict_get (req_headers r) ''Authorization'' = bearer self"
    using a h by simp
  ultimately show ?case by blast
qed

text \<open>
  Claim C3, as the code has it. After \<^verbatim>\<open>set_auth_token(t)\<close> with a non-empty \<open>t\<close>,
  every request that the typed methods send (one per call, until the token is set again)
  carries \<^verbatim>\<open>Authorization: Bearer t\<close>; on a client whose token was never set, no
  request carries an \<^verbatim>\<open>Authorization\<close> header.
\<close>

theorem bearer_token_on_requests:
  assumes "\<forall>c\<in>set cs. \<not> is_set_auth_token c"
  shows "length (snd (run (recording respond) cs (set_auth_token self t, []))) = length cs
       \<and> (t \<noteq> [] \<longrightarrow>
            (\<forall>r\<in>set (snd (run (recording respond) cs (set_auth_token self t, []))).
               dict_get (req_headers r) ''Authorization'' = Some (''Bearer '' @ t)))
       \<and> length (snd (run (recording respond) cs (init b tm, []))) = length cs
       \<and> (\<forall>r\<in>set (snd (run (recording respond) cs (init b tm, []))).
            dict_get (req_headers r) ''Authorization'' = None)"
proof -
  have "bearer (set_auth_token self t) = (if t \<noteq> [] then Some (''Bearer '' @ t) else None)"
    by (simp add: bearer_def set_auth_token_def)
  moreover have "bearer (init b tm) = None"
    by (simp add: bearer_def init_def)
  ultimately show ?thesis
    using run_recording [OF assms, of respond "set_auth_token self t" "[]"]
      run_recording [OF assms, of respond "init b tm" "[]"]
    by auto
qed

theorem bearer_token_on_requests_witness:
  "map (\<lambda>r. dict_get (req_headers r) ''Authorization'')
     (snd (run (recording (reply (response_of 200 ''OK'' ''[]'' (Some (PList [])))))
        [Get_users, Cors_preflight_check ''/api/users'' ''GET'']
        (set_auth_token (init ''http://localhost:8080'' 30) ''abc'', [])))
   = [Some ''Bearer abc'', Some ''Bearer abc'']
   \<and> map (\<lambda>r. dict_get (req_headers r) ''Authorization'')
     (snd (run (recording (reply (response_of 200 ''OK'' ''[]'' (Some (PList [])))))
        [Get_users, Cors_preflight_check ''/api/users'' ''GET'']
        (init ''http://localhost:8080'' 30, [])))
   = [None, None]"
  using bearer_token_on_requests [of "[Get_users, Cors_preflight_check ''/api/users'' ''GET'']"
      "reply (response_of 200 ''OK'' ''[]'' (Some (PList [])))"
      "init ''http://localhost:8080'' 30" "''abc''" "''http://localhost:8080''" 30]
  by (simp add: get_users_def cors_preflight_check_def returning_def return_data_def
      make_request_def recording_def reply_def response_of_def ok_def Let_def
      build_request_def get_headers_def dict_get_def set_auth_token_def init_def)

text \<open>
  After \<^verbatim>\<open>set_auth_token("")\<close> the request of \<^verbatim>\<open>health_check\<close> does not carry
  \<^verbatim>\<open>Authorization: Bearer \<close> followed by the (empty) token.
\<close>

theorem empty_token_counterexample:
  "dict_get (req_headers (hd (snd (health_check
      (recording (reply (response_of 200 ''OK'' ''{}'' (Some (PDict [])))))
      (set_auth_token (init ''http://localhost:8080'' 30) []) [])))) ''Authorization''
   \<noteq> Some (''Bearer '' @ [])"
  by (simp add: health_check_def return_data_def make_request_def recording_def reply_def
      response_of_def ok_def Let_def build_request_def get_headers_def dict_get_def
      set_auth_token_def init_def)

text \<open>
  Claim C8. \<^verbatim>\<open>set_auth_token("")\<close> stores the empty string, and the client then
  behaves as one without a token: the headers and the requests it builds are those of
  the client with the token unset, and no request of the typed methods carries an
  \<^verbatim>\<open>Authorization\<close> header.
\<close>

theorem empty_token_like_unset:
  "token (set_auth_token self []) = Some []
   \<and> get_headers (set_auth_token self []) h = get_headers (self\<lparr>token := None\<rparr>) h
   \<and> dict_get (get_headers (set_auth_token self []) None) ''Authorization'' = None
   \<and> build_request (set_auth_token self []) m e d h p = build_request (self\<lparr>token := None\<rparr>) m e d h p
   \<and> ((\<forall>c\<in>set cs. \<not> is_set_auth_token c) \<longrightarrow>
        length (snd (run (recording respond) cs (set_auth_token self [], []))) = length cs
        \<and> (\<forall>r\<in>set (snd (run (recording respond) cs (set_auth_token self [], []))).
              dict_get (req_headers r) ''Authorization'' = None))"
proof -
  have b: "bearer (set_auth_token self []) = None"
    by (simp add: bearer_def set_auth_token_def)
  have "(\<forall>c\<in>set cs. \<not> is_set_auth_token c) \<longrightarrow>
        length (snd (run (recording respond) cs (set_auth_token self [], []))) = length cs
        \<and> (\<forall>r\<in>set (snd (run (recording respond) cs (set_auth_token self [], []))).
              dict_get (req_headers r) ''Authorization'' = None)"
    using run_recording [of cs respond "set_auth_token self []" "[]"] b by auto
  moreover have g: "get_headers (set_auth_token self []) h = get_headers (self\<lparr>token := None\<rparr>) h"
    by (simp add: get_headers_def set_auth_token_def)
  moreover have "dict_get (get_headers (set_auth_token self []) None) ''Authorization'' = None"
    using get_headers_Authorization_None [of "set_auth_token self []"] b by simp
  moreover have "build_request (set_auth_token self []) m e d h p
      = build_request (self\<lparr>token := None\<rparr>) m e d h p"
    using g by (simp add: build_request_def) (simp add: set_auth_token_def)
  moreover have "token (set_auth_token self []) = Some []"
    by (simp add: set_auth_token_def)
  ultimately show ?thesis by blast
qed

theorem empty_token_like_unset_witness:
  "map (\<lambda>r. dict_get (req_headers r) ''Authorization'')
     (snd (run (recording (reply (response_of 200 ''OK'' ''[]'' (Some (PList [])))))
        [Get_users, Health_check]
        (set_auth_token (init ''http://localhost:8080'' 30) [], [])))
   = [None, None]"
  using empty_token_like_unset [of "init ''http://localhost:8080'' 30" None "''GET''" "''/health''"
      PNone None "[Get_users, Health_check]"
      "reply (response_of 200 ''OK'' ''[]'' (Some (PList [])))"]
  by (simp add: get_users_def health_check_def returning_def return_data_def
      make_request_def recording_def reply_def response_of_def ok_def Let_def
      build_request_def get_headers_def dict_get_def set_auth_token_def init_def)

section \<open>The CORS preflight\<close>

text \<open>
  Claim C6, as the code has it. \<^verbatim>\<open>cors_preflight_check(endpoint, method)\<close> sends one
  \<^verbatim>\<open>OPTIONS\<close> request to the endpoint, with no body and with the method in
  \<^verbatim>\<open>Access-Control-Request-Method\<close>; on a 2xx response it returns the
  \<^verbatim>\<open>ApiResponse\<close> envelope (status code, decoded body, headers, elapsed time), where
  the other typed methods return the decoded body alone.
\<close>

theorem cors_preflight_check_envelope:
  assumes "respond (build_request self ''OPTIONS'' endpoint PNone
              (Some [(''Access-Control-Request-Method'', method),
                     (''Access-Control-Request-Headers'', ''Content-Type, Authorization'')]) None)
           = Response response"
    and "200 \<le> resp_status_code response" and "resp_status_code response < 300"
  shows "\<exists>req. cors_preflight_check (recording respond) self endpoint method seen =
           (Inr \<lparr>status_code = resp_status_code response,
                 data = parse_response_data response,
                 headers = resp_headers response,
                 elapsed_ms = of_int (resp_elapsed_us response) / 1000\<rparr>, seen @ [req])
         \<and> fst (perform (recording respond) (Cors_preflight_check endpoint method) (self, seen)) =
           Inr (Envelope \<lparr>status_code = resp_status_code response,
                 data = parse_response_data response,
                 headers = resp_headers response,
                 elapsed_ms = of_int (resp_elapsed_us response) / 1000\<rparr>)
         \<and> req_method req = ''OPTIONS''
         \<and> req_url req = base_url self @ endpoint
         \<and> req_json req = None
         \<and> dict_get (req_headers req) ''Access-Control-Request-Method'' = Some method"
proof -
  let ?h = "Some [(''Access-Control-Request-Method'', method),
                  (''Access-Control-Request-Headers'', ''Content-Type, Authorization'')]"
  let ?req = "build_request self ''OPTIONS'' endpoint PNone ?h None"
  let ?r = "\<lparr>status_code = resp_status_code response,
            data = parse_response_data response,
            headers = resp_headers response,
            elapsed_ms = of_int (resp_elapsed_us response) / 1000\<rparr>"
  have "recording respond seen ?req = (Response response, seen @ [?req])"
    using assms(1) by (simp add: recording_def)
  then have m: "make_request (recording respond) self ''OPTIONS'' endpoint PNone ?h None seen =
      (Inr ?r, seen @ [?req])"
    using make_request_Response [of "recording respond" seen self "''OPTIONS''" endpoint PNone ?h None
        response "seen @ [?req]"] assms(2,3)
    by simp
  then have c: "cors_preflight_check (recording respond) self endpoint method seen
      = (Inr ?r, seen @ [?req])"
    by (simp add: cors_preflight_check_def Let_def)
  then have p: "fst (perform (recording respond) (Cors_preflight_check endpoint method) (self, seen))
      = Inr (Envelope ?r)"
    by (simp add: returning_def)
  have "dict_get (req_headers ?req) ''Access-Control-Request-Method'' = Some method"
    using get_headers_cors_method [of self "method"] by (simp add: build_request_def)
  moreover have "req_method ?req = ''OPTIONS'' \<and> req_url ?req = base_url self @ endpoint
      \<and> req_json ?req = None"
    by (simp add: build_request_def)
  ultimately show ?thesis
    using c p by blast
qed

theorem cors_preflight_check_envelope_witness:
  "fst (cors_preflight_check (recording (reply (response_of 204 ''No Content'' [] None)))
     (init ''http://localhost:8080'' 30) ''/api/users'' ''GET'' [])
   = Inr \<lparr>status_code = 204, data = PStr [], headers = [], elapsed_ms = 0\<rparr>"
  using cors_preflight_check_envelope [of "reply (response_of 204 ''No Content'' [] None)"
      "init ''http://localhost:8080'' 30" "''/api/users''" "''GET''"
      "response_of 204 ''No Content'' [] None" "[]"]
  by (auto simp add: reply_def response_of_def parse_response_data_def)

text \<open>
  On a 200 response whose body decodes to the empty dict, what
  \<^verbatim>\<open>cors_preflight_check\<close> returns is not that body.
\<close>

theorem cors_preflight_check_counterexample:
  "fst (perform (recording (reply (response_of 200 ''OK'' ''{}'' (Some (PDict [])))))
         (Cors_preflight_check ''/api/users'' ''GET'') (init ''http://localhost:8080'' 30, []))
   \<noteq> Inr (Data (PDict []))"
  by (simp add: cors_preflight_check_def returning_def make_request_def recording_def reply_def
      response_of_def ok_def Let_def)

section \<open>What the session hands back\<close>













section \<open>The two kinds of error\<close>




section \<open>Retries on a failing status\<close>











end
